theory Spec2Isabelle
  imports Main "HOL-Library.Log_Nat" "HOL-Library.Word" "HOL-Library.Sublist"
begin

section \<open>Video ingestion pipeline: a shallow embedding of the upload handlers\<close>

text \<open>
  The development follows the Go sources: \<^verbatim>\<open>getVideoAspectRatio\<close>,
  \<^verbatim>\<open>processVideoForFastStart\<close> and \<^verbatim>\<open>handlerUploadVideo\<close> of
  \<^verbatim>\<open>handler_upload_video.go\<close>, the later revision of the same file that stores
  the locator as \<^verbatim>\<open>bucket,key\<close> and signs it on read
  (\<^verbatim>\<open>dbVideoToSignedVideo\<close>), and the two file-writing revisions of
  \<^verbatim>\<open>handlerUploadThumbnail\<close>.

  Everything outside the handlers (the HTTP library, the auth and database packages, the
  operating system, the two media tools, the object store) is not part of the sources; it
  enters the model either as a parameter or as an explicit outcome of the run.
\<close>

subsection \<open>IEEE binary64 arithmetic\<close>

text \<open>
  A finite \<^verbatim>\<open>float64\<close> is represented by the rational number it denotes. Every
  arithmetic operation of the source is the exact operation followed by rounding to the
  nearest number with a 53-bit significand, ties to even. The exponent is not bounded here:
  overflow, subnormals and NaN cannot arise in the classifier, whose operands are quotients
  of non-zero 64-bit integers and the constants 16/9, 9/16 and 0.05.
\<close>

type_synonym float64 = rat

definition round_half_even :: "rat \<Rightarrow> int" where
  "round_half_even x =
     (let f = \<lfloor>x\<rfloor>; d = x - of_int f
      in if d < 1 / 2 then f else if 1 / 2 < d then f + 1 else if even f then f else f + 1)"

text \<open>\<open>binade x\<close> is the exponent \<open>e\<close> with \<open>2 ^ e \<le> |x| < 2 ^ (e + 1)\<close>, for \<open>x \<noteq> 0\<close>.\<close>

definition binade :: "rat \<Rightarrow> int" where
  "binade x =
     (let (p, q) = quotient_of \<bar>x\<bar>; e0 = bitlen p - bitlen q
      in if 2 powi e0 \<le> \<bar>x\<bar> then e0 else e0 - 1)"

definition rnd64 :: "rat \<Rightarrow> float64" where
  "rnd64 x =
     (if x = 0 then 0
      else let u = 2 powi (binade x - 52) in of_int (round_half_even (x / u)) * u)"

definition float64_of_int :: "int \<Rightarrow> float64" where
  "float64_of_int n = rnd64 (of_int n)"

definition fdiv :: "float64 \<Rightarrow> float64 \<Rightarrow> float64" where
  "fdiv x y = rnd64 (x / y)"

definition fsub :: "float64 \<Rightarrow> float64 \<Rightarrow> float64" where
  "fsub x y = rnd64 (x - y)"

definition fmul :: "float64 \<Rightarrow> float64 \<Rightarrow> float64" where
  "fmul x y = rnd64 (x * y)"

subsection \<open>Media prober and aspect classifier (\<^verbatim>\<open>getVideoAspectRatio\<close>)\<close>

text \<open>One entry of \<^verbatim>\<open>ffprobeOutput.Streams\<close>.\<close>

record stream =
  CodecType :: string
  Width :: int
  Height :: int

text \<open>
  What running \<^verbatim>\<open>ffprobe\<close> and decoding its standard output gave: the command
  failed, the output was not the expected JSON, or the decoded stream list.
\<close>

datatype ffprobe_result = ProbeCmdFailed | ProbeUnparseable | ProbeStreams "stream list"

datatype probe_error = FfprobeFailed | ParseFailed | NoVideoStreamFound

text \<open>
  The loop of lines 53-61: \<^verbatim>\<open>width\<close> and \<^verbatim>\<open>height\<close> start at zero and are
  set from the first stream whose codec type is \<^verbatim>\<open>"video"\<close>, where the loop breaks.
\<close>

fun firstVideoStream :: "stream list \<Rightarrow> int \<times> int" where
  "firstVideoStream [] = (0, 0)"
| "firstVideoStream (s # ss) =
     (if CodecType s = ''video'' then (Width s, Height s) else firstVideoStream ss)"

definition tolerance :: float64 where
  "tolerance = rnd64 (5 / 100)"

definition landscapeTarget :: float64 where
  "landscapeTarget = rnd64 (16 / 9)"

definition portraitTarget :: float64 where
  "portraitTarget = rnd64 (9 / 16)"

text \<open>Lines 67-80: the ratio and the \<^verbatim>\<open>switch\<close>, first matching case wins.\<close>

definition aspectOfRatio :: "int \<Rightarrow> int \<Rightarrow> string" where
  "aspectOfRatio width height =
     (let ratio = fdiv (float64_of_int width) (float64_of_int height)
      in if \<bar>fsub ratio landscapeTarget\<bar> \<le> fmul landscapeTarget tolerance then ''landscape''
         else if \<bar>fsub ratio portraitTarget\<bar> \<le> fmul portraitTarget tolerance then ''portrait''
         else ''other'')"

text \<open>Lines 44-80, given what the command and the JSON decoder produced.\<close>

definition aspectFromProbe :: "ffprobe_result \<Rightarrow> probe_error + string" where
  "aspectFromProbe probed =
     (case probed of
        ProbeCmdFailed \<Rightarrow> Inl FfprobeFailed
      | ProbeUnparseable \<Rightarrow> Inl ParseFailed
      | ProbeStreams streams \<Rightarrow>
          (let (width, height) = firstVideoStream streams
           in if width = 0 \<or> height = 0 then Inl NoVideoStreamFound
              else Inr (aspectOfRatio width height)))"

text \<open>
  The band test in the words of the specification: the ratio is a floating-point value and
  lies in the band of a target when \<open>|ratio - target| \<le> target * 0.05\<close>.
\<close>

definition spec_ratio :: "int \<Rightarrow> int \<Rightarrow> float64" where
  "spec_ratio width height = fdiv (float64_of_int width) (float64_of_int height)"

definition spec_in_band :: "float64 \<Rightarrow> float64 \<Rightarrow> bool" where
  "spec_in_band ratio target \<longleftrightarrow> \<bar>fsub ratio target\<bar> \<le> fmul target (rnd64 (5 / 100))"

text \<open>
  The failure condition of the prober in the words of the specification: no stream of the
  list has both a positive width and a positive height.
\<close>

definition spec_noVideoStream :: "stream list \<Rightarrow> bool" where
  "spec_noVideoStream streams = (\<not> list_ex (\<lambda>s. 0 < Width s \<and> 0 < Height s) streams)"

subsection \<open>Data model\<close>

type_synonym byte = "8 word"
type_synonym bytes = "byte list"
type_synonym uuid = "128 word"

text \<open>
  Modelled from the spec: the record type \<^verbatim>\<open>database.Video\<close> is declared in the
  database package, which is not among the sources. The specification gives it an id, an
  owner and a nullable video locator; the thumbnail handlers also set its thumbnail URL.
\<close>

record video =
  ID :: uuid
  UserID :: uuid
  VideoURL :: "string option"
  ThumbnailURL :: "string option"

record apiConfig =
  jwtSecret :: string
  s3Bucket :: string
  s3Region :: string
  assetsRoot :: string
  port :: string

text \<open>One file of a multipart form: its \<^verbatim>\<open>Content-Type\<close> header and its bytes.\<close>

record filePart =
  contentType :: string
  content :: bytes

text \<open>
  A request as the handlers read it: the path value, the header, the length of the body,
  the reader's byte ceiling once \<^verbatim>\<open>http.MaxBytesReader\<close> has wrapped the body, and
  the form that the multipart decoder would produce from the whole body
  (\<open>None\<close> when the body is not a well-formed form).
\<close>

record request =
  pathVideoID :: string
  header :: "(string \<times> string) list"
  bodyLength :: int
  bodyLimit :: "int option"
  multipartForm :: "(string \<times> filePart) list option"

datatype payload = ErrorBody string | VideoBody video

record response =
  status :: nat
  payload :: payload

text \<open>External actions, in the order the handler performs them.\<close>

datatype event =
    DbGetVideo uuid
  | DbUpdateVideo uuid
  | CreateTemp string
  | CreateFile string
  | WriteFile string
  | RemoveFile string
  | RunFfprobe string
  | RunFfmpeg string string
  | S3PutObject string string

text \<open>
  The state outside the handler: the local file system, the object store (bucket and key to
  body and content type), the metadata store, and the log of external actions.
\<close>

record world =
  files :: "string \<rightharpoonup> bytes"
  objects :: "string \<times> string \<rightharpoonup> bytes \<times> string"
  videos :: "uuid \<rightharpoonup> video"
  log :: "event list"

text \<open>
  \<^verbatim>\<open>ffmpeg\<close> either writes the remuxed file and exits with status zero, or exits with
  an error; in the second case it may already have created its output file.
\<close>

datatype ffmpeg_result = FfmpegOk bytes | FfmpegFailed "bytes option"

text \<open>
  Library functions that the handlers call and that are pure: they are parameters of the
  model. \<^verbatim>\<open>GetBearerToken\<close> and \<^verbatim>\<open>ValidateJWT\<close> belong to the auth package,
  which is not among the sources.
\<close>

record lib =
  uuid_Parse :: "string \<Rightarrow> uuid option"
  uuid_String :: "uuid \<Rightarrow> string"
  GetBearerToken :: "(string \<times> string) list \<Rightarrow> string option"
  ValidateJWT :: "string \<Rightarrow> string \<Rightarrow> uuid option"
  ParseMediaType :: "string \<Rightarrow> string option"
  filepath_Join :: "string \<Rightarrow> string \<Rightarrow> string"

text \<open>
  What the fallible operations of one run do: each field is the outcome of the call named
  in its comment.
\<close>

record env =
  dbUnavailable :: bool \<comment> \<open>\<^verbatim>\<open>GetVideo\<close> fails with an error other than \<^verbatim>\<open>sql.ErrNoRows\<close>\<close>
  tempName :: "string option" \<comment> \<open>\<^verbatim>\<open>os.CreateTemp\<close>: the new file's name, or failure\<close>
  createError :: bool \<comment> \<open>\<^verbatim>\<open>os.Create\<close> fails\<close>
  copyError :: "nat option" \<comment> \<open>\<^verbatim>\<open>io.Copy\<close> fails after that many bytes\<close>
  seekError :: bool \<comment> \<open>\<^verbatim>\<open>tempFile.Seek\<close> fails\<close>
  ffprobe :: "bytes \<Rightarrow> ffprobe_result"
  ffmpeg :: "bytes \<Rightarrow> ffmpeg_result"
  openError :: bool \<comment> \<open>\<^verbatim>\<open>os.Open\<close> of the processed file fails\<close>
  seekError2 :: bool \<comment> \<open>\<^verbatim>\<open>processedFile.Seek\<close> fails\<close>
  randomSource :: "(nat \<Rightarrow> byte) option" \<comment> \<open>\<^verbatim>\<open>rand.Read\<close>: the bytes drawn, or failure\<close>
  putObjectError :: bool \<comment> \<open>\<^verbatim>\<open>PutObject\<close> fails\<close>
  updateVideoError :: bool \<comment> \<open>\<^verbatim>\<open>UpdateVideo\<close> fails\<close>
  presign :: "string \<Rightarrow> string \<Rightarrow> int \<Rightarrow> string option" \<comment> \<open>\<^verbatim>\<open>PresignGetObject\<close>\<close>

subsection \<open>Operations on the world\<close>

definition logged :: "event \<Rightarrow> world \<Rightarrow> world" where
  "logged e w = w\<lparr>log := log w @ [e]\<rparr>"

datatype db_error = ErrNoRows | DbFailure

text \<open>
  Modelled from the spec: \<^verbatim>\<open>GetVideo\<close> and \<^verbatim>\<open>UpdateVideo\<close> are methods of the
  database package, which is not among the sources. The specification gives
  \<open>getRecord(id) -> VideoRecord | NotFound\<close> and \<open>updateRecord(VideoRecord) -> ok | error\<close>;
  an update that reports an error stores nothing.
\<close>

definition GetVideo :: "env \<Rightarrow> uuid \<Rightarrow> world \<Rightarrow> (db_error + video) \<times> world" where
  "GetVideo env videoID w =
     (let w' = logged (DbGetVideo videoID) w
      in if dbUnavailable env then (Inl DbFailure, w')
         else case videos w videoID of
                None \<Rightarrow> (Inl ErrNoRows, w')
              | Some v \<Rightarrow> (Inr v, w'))"

definition UpdateVideo :: "env \<Rightarrow> video \<Rightarrow> world \<Rightarrow> bool \<times> world" where
  "UpdateVideo env v w =
     (let w' = logged (DbUpdateVideo (ID v)) w
      in if updateVideoError env then (False, w')
         else (True, w'\<lparr>videos := (videos w')(ID v \<mapsto> v)\<rparr>))"

text \<open>The object store's put: a failed put stores nothing.\<close>

definition PutObject :: "env \<Rightarrow> string \<Rightarrow> string \<Rightarrow> bytes \<Rightarrow> string \<Rightarrow> world \<Rightarrow> bool \<times> world" where
  "PutObject env bucket key body ctype w =
     (let w' = logged (S3PutObject bucket key) w
      in if putObjectError env then (False, w')
         else (True, w'\<lparr>objects := (objects w')((bucket, key) \<mapsto> (body, ctype))\<rparr>))"

definition osCreateTemp :: "env \<Rightarrow> world \<Rightarrow> string option \<times> world" where
  "osCreateTemp env w =
     (case tempName env of
        None \<Rightarrow> (None, w)
      | Some name \<Rightarrow> (Some name, logged (CreateTemp name) (w\<lparr>files := (files w)(name \<mapsto> [])\<rparr>)))"

text \<open>\<^verbatim>\<open>os.Create\<close> creates the file or truncates an existing one.\<close>

definition osCreate :: "env \<Rightarrow> string \<Rightarrow> world \<Rightarrow> bool \<times> world" where
  "osCreate env path w =
     (if createError env then (False, w)
      else (True, logged (CreateFile path) (w\<lparr>files := (files w)(path \<mapsto> [])\<rparr>)))"

text \<open>\<^verbatim>\<open>io.Copy\<close> into an open file: all bytes, or the bytes written before the error.\<close>

definition ioCopy :: "env \<Rightarrow> string \<Rightarrow> bytes \<Rightarrow> world \<Rightarrow> bool \<times> world" where
  "ioCopy env path src w =
     (case copyError env of
        None \<Rightarrow> (True, logged (WriteFile path) (w\<lparr>files := (files w)(path \<mapsto> src)\<rparr>))
      | Some n \<Rightarrow> (False, logged (WriteFile path) (w\<lparr>files := (files w)(path \<mapsto> take n src)\<rparr>)))"

text \<open>\<^verbatim>\<open>os.Remove\<close>, its error ignored as in the deferred calls: a missing file stays missing.\<close>

definition osRemove :: "string \<Rightarrow> world \<Rightarrow> world" where
  "osRemove path w = logged (RemoveFile path) (w\<lparr>files := (files w)(path := None)\<rparr>)"

definition respondWithError :: "nat \<Rightarrow> string \<Rightarrow> response" where
  "respondWithError code msg = \<lparr>status = code, payload = ErrorBody msg\<rparr>"

definition respondWithJSON :: "nat \<Rightarrow> video \<Rightarrow> response" where
  "respondWithJSON code v = \<lparr>status = code, payload = VideoBody v\<rparr>"

text \<open>Lines 36-51 run the probe on the file at the path; a missing file makes it fail.\<close>

definition getVideoAspectRatio :: "env \<Rightarrow> string \<Rightarrow> world \<Rightarrow> (probe_error + string) \<times> world" where
  "getVideoAspectRatio env filePath w =
     (let probed = (case files w filePath of None \<Rightarrow> ProbeCmdFailed | Some data \<Rightarrow> ffprobe env data)
      in (aspectFromProbe probed, logged (RunFfprobe filePath) w))"

text \<open>
  \<^verbatim>\<open>processVideoForFastStart\<close>: the output path is the input path with the suffix
  \<^verbatim>\<open>.processing\<close>; on a failed run the function returns the error and no path.
\<close>

definition processVideoForFastStart :: "env \<Rightarrow> string \<Rightarrow> world \<Rightarrow> (unit + string) \<times> world" where
  "processVideoForFastStart env filePath w =
     (let outputPath = filePath @ ''.processing'';
          w' = logged (RunFfmpeg filePath outputPath) w
      in case files w filePath of
           None \<Rightarrow> (Inl (), w')
         | Some data \<Rightarrow>
             (case ffmpeg env data of
                FfmpegOk out \<Rightarrow> (Inr outputPath, w'\<lparr>files := (files w')(outputPath \<mapsto> out)\<rparr>)
              | FfmpegFailed None \<Rightarrow> (Inl (), w')
              | FfmpegFailed (Some part) \<Rightarrow>
                  (Inl (), w'\<lparr>files := (files w')(outputPath \<mapsto> part)\<rparr>)))"

subsection \<open>Object key builder\<close>

text \<open>
  \<^verbatim>\<open>base64.RawURLEncoding.EncodeToString\<close> of the standard library: three bytes give
  four characters of the URL-safe alphabet, a remainder of one or two bytes gives two or
  three characters, and no padding is appended.
\<close>

definition urlAlphabet :: string where
  "urlAlphabet = ''ABCDEFGHIJKLMNOPQRSTUVWXYZabcdefghijklmnopqrstuvwxyz0123456789-_''"

definition sextet :: "int \<Rightarrow> nat \<Rightarrow> char" where
  "sextet val k = urlAlphabet ! nat ((val div 2 ^ k) mod 64)"

fun RawURLEncoding :: "bytes \<Rightarrow> string" where
  "RawURLEncoding [] = []"
| "RawURLEncoding [a] =
     (let val = uint a * 65536 in [sextet val 18, sextet val 12])"
| "RawURLEncoding [a, b] =
     (let val = uint a * 65536 + uint b * 256 in [sextet val 18, sextet val 12, sextet val 6])"
| "RawURLEncoding (a # b # c # rest) =
     (let val = uint a * 65536 + uint b * 256 + uint c
      in [sextet val 18, sextet val 12, sextet val 6, sextet val 0]) @ RawURLEncoding rest"

text \<open>Lines 260-267: 32 bytes from the random source, encoded, behind the aspect prefix.\<close>

definition randomBytes32 :: "(nat \<Rightarrow> byte) \<Rightarrow> bytes" where
  "randomBytes32 src = map src [0..<32]"

definition objectKeyFor :: "string \<Rightarrow> bytes \<Rightarrow> string" where
  "objectKeyFor aspect randomBytes = aspect @ ''/'' @ RawURLEncoding randomBytes @ ''.mp4''"

subsection \<open>\<^verbatim>\<open>handlerUploadVideo\<close>\<close>

text \<open>
  The body is read by \<^verbatim>\<open>ParseMultipartForm\<close>, which decodes the whole form. With a
  byte ceiling on the reader, a body longer than the ceiling makes the read, and with it the
  call, fail. The decoder's own spill files are created and removed by the library and are
  not part of the model.
\<close>

definition ParseMultipartForm :: "request \<Rightarrow> (string \<times> filePart) list option" where
  "ParseMultipartForm r =
     (case bodyLimit r of
        None \<Rightarrow> multipartForm r
      | Some n \<Rightarrow> if n < bodyLength r then None else multipartForm r)"

definition FormFile :: "(string \<times> filePart) list \<Rightarrow> string \<Rightarrow> filePart option" where
  "FormFile form key = map_of form key"

text \<open>
  Lines 243-294, which run once the removal of the processed file has been deferred: open
  the processed file, build the key, put the object, update the record.
\<close>

definition publishProcessed ::
  "env \<Rightarrow> apiConfig \<Rightarrow> video \<Rightarrow> string \<Rightarrow> string \<Rightarrow> world \<Rightarrow> response \<times> world" where
  "publishProcessed env cfg video aspect processedPath w =
     (case files w processedPath of
        None \<Rightarrow> (respondWithError 500 ''Failed to open processed video'', w)
      | Some processedFile \<Rightarrow>
          if openError env then (respondWithError 500 ''Failed to open processed video'', w)
          else if seekError2 env then (respondWithError 500 ''Failed to read processed video'', w)
          else (case randomSource env of
                  None \<Rightarrow> (respondWithError 500 ''Failed to generate filename'', w)
                | Some src \<Rightarrow>
                    (let objectKey = objectKeyFor aspect (randomBytes32 src);
                         (put, w1) = PutObject env (s3Bucket cfg) objectKey processedFile ''video/mp4'' w
                     in if \<not> put then (respondWithError 500 ''Failed to upload to S3'', w1)
                        else (let videoURL = ''https://'' @ s3Bucket cfg @ ''.s3.'' @ s3Region cfg
                                               @ ''.amazonaws.com/'' @ objectKey;
                                  video' = video\<lparr>VideoURL := Some videoURL\<rparr>;
                                  (updated, w2) = UpdateVideo env video' w1
                              in if \<not> updated
                                 then (respondWithError 500 ''Failed to update video'', w2)
                                 else (respondWithJSON 200 video', w2)))))"

text \<open>
  Lines 189-241, which run once the removal of the temporary file has been deferred. The
  removal of the processed file is deferred only after the remux has returned without
  error; it then runs when the function returns, whatever the outcome of the rest.
\<close>

definition processStaged ::
  "(env \<Rightarrow> apiConfig \<Rightarrow> video \<Rightarrow> string \<Rightarrow> string \<Rightarrow> world \<Rightarrow> response \<times> world) \<Rightarrow>
   env \<Rightarrow> apiConfig \<Rightarrow> video \<Rightarrow> bytes \<Rightarrow> string \<Rightarrow> world \<Rightarrow> response \<times> world" where
  "processStaged publish env cfg video file tempFile w =
     (let (copied, w1) = ioCopy env tempFile file w
      in if \<not> copied then (respondWithError 500 ''Failed to save video'', w1)
         else if seekError env then (respondWithError 500 ''Failed to process video'', w1)
         else (let (probed, w2) = getVideoAspectRatio env tempFile w1
               in case probed of
                    Inl err \<Rightarrow> (respondWithError 500 ''Failed to analyze video'', w2)
                  | Inr aspect \<Rightarrow>
                      (let (processed, w3) = processVideoForFastStart env tempFile w2
                       in case processed of
                            Inl err \<Rightarrow> (respondWithError 500 ''Video processing failed'', w3)
                          | Inr processedPath \<Rightarrow>
                              (let (resp, w4) = publish env cfg video aspect processedPath w3
                               in (resp, osRemove processedPath w4)))))"

text \<open>
  Lines 153-187: the form, the media type, the temporary file. The removal of the temporary
  file is deferred as soon as it has been created.
\<close>

definition stageUpload ::
  "(env \<Rightarrow> apiConfig \<Rightarrow> video \<Rightarrow> string \<Rightarrow> string \<Rightarrow> world \<Rightarrow> response \<times> world) \<Rightarrow>
   lib \<Rightarrow> env \<Rightarrow> apiConfig \<Rightarrow> request \<Rightarrow> video \<Rightarrow> world \<Rightarrow> response \<times> world" where
  "stageUpload publish lib env cfg r video w =
     (case ParseMultipartForm r of
        None \<Rightarrow> (respondWithError 400 ''Error parsing form'', w)
      | Some form \<Rightarrow>
          (case FormFile form ''video'' of
             None \<Rightarrow> (respondWithError 400 ''Missing video file'', w)
           | Some part \<Rightarrow>
               (case ParseMediaType lib (contentType part) of
                  None \<Rightarrow> (respondWithError 400 ''Invalid Content-Type'', w)
                | Some parsedMediaType \<Rightarrow>
                    if parsedMediaType \<noteq> ''video/mp4''
                    then (respondWithError 415 ''Only MP4 videos are allowed'', w)
                    else (let (created, w1) = osCreateTemp env w
                          in case created of
                               None \<Rightarrow> (respondWithError 500 ''Failed to create temp file'', w1)
                             | Some tempFile \<Rightarrow>
                                 (let (resp, w2) =
                                        processStaged publish env cfg video (content part) tempFile w1
                                  in (resp, osRemove tempFile w2))))))"

text \<open>Lines 105-151: the byte ceiling, the id, the caller, the record and its owner.\<close>

definition handlerUploadVideoWith ::
  "(env \<Rightarrow> apiConfig \<Rightarrow> video \<Rightarrow> string \<Rightarrow> string \<Rightarrow> world \<Rightarrow> response \<times> world) \<Rightarrow>
   lib \<Rightarrow> env \<Rightarrow> apiConfig \<Rightarrow> request \<Rightarrow> world \<Rightarrow> response \<times> world" where
  "handlerUploadVideoWith publish lib env cfg r0 w =
     (let r = r0\<lparr>bodyLimit := Some (2 ^ 30)\<rparr>
      in case uuid_Parse lib (pathVideoID r) of
           None \<Rightarrow> (respondWithError 400 ''Invalid video ID'', w)
         | Some videoID \<Rightarrow>
             (case GetBearerToken lib (header r) of
                None \<Rightarrow> (respondWithError 401 ''Couldn't find JWT'', w)
              | Some token \<Rightarrow>
                  (case ValidateJWT lib token (jwtSecret cfg) of
                     None \<Rightarrow> (respondWithError 401 ''Invalid JWT'', w)
                   | Some userID \<Rightarrow>
                       (let (found, w1) = GetVideo env videoID w
                        in case found of
                             Inl ErrNoRows \<Rightarrow> (respondWithError 404 ''Video not found'', w1)
                           | Inl DbFailure \<Rightarrow> (respondWithError 500 ''Database error'', w1)
                           | Inr video \<Rightarrow>
                               (case uuid_Parse lib (uuid_String lib userID) of
                                  None \<Rightarrow> (respondWithError 401 ''Invalid user ID'', w1)
                                | Some userUUID \<Rightarrow>
                                    if UserID video \<noteq> userUUID
                                    then (respondWithError 401 ''Unauthorized access'', w1)
                                    else stageUpload publish lib env cfg r video w1)))))"

text \<open>The handler of \<^verbatim>\<open>handler_upload_video.go\<close>.\<close>

definition handlerUploadVideo ::
  "lib \<Rightarrow> env \<Rightarrow> apiConfig \<Rightarrow> request \<Rightarrow> world \<Rightarrow> response \<times> world" where
  "handlerUploadVideo = handlerUploadVideoWith publishProcessed"

subsection \<open>Signed access on read (the revision that stores \<^verbatim>\<open>bucket,key\<close>)\<close>

text \<open>
  \<^verbatim>\<open>strings.SplitN(s, sep, n)\<close> of the standard library for a non-empty separator and
  \<open>n > 0\<close>: cut at the first occurrences of the separator, at most \<open>n - 1\<close> times; the
  last element is the unsplit rest.
\<close>

fun cutAt :: "string \<Rightarrow> string \<Rightarrow> (string \<times> string) option" where
  "cutAt sep [] = None"
| "cutAt sep (c # cs) =
     (if prefix sep (c # cs) then Some ([], drop (length sep) (c # cs))
      else map_option (\<lambda>(before, rest). (c # before, rest)) (cutAt sep cs))"

fun genSplit :: "string \<Rightarrow> string \<Rightarrow> nat \<Rightarrow> string list" where
  "genSplit s sep 0 = [s]"
| "genSplit s sep (Suc k) =
     (case cutAt sep s of
        None \<Rightarrow> [s]
      | Some (before, rest) \<Rightarrow> before # genSplit rest sep k)"

definition SplitN :: "string \<Rightarrow> string \<Rightarrow> nat \<Rightarrow> string list" where
  "SplitN s sep n = (if n = 0 then [] else genSplit s sep (n - 1))"

text \<open>The locator written by the upload handler: \<^verbatim>\<open>fmt.Sprintf("%s,%s", bucket, key)\<close>.\<close>

definition encodeLocator :: "string \<Rightarrow> string \<Rightarrow> string" where
  "encodeLocator bucket key = bucket @ '','' @ key"

text \<open>The locator read back by \<^verbatim>\<open>dbVideoToSignedVideo\<close>: split in two at a comma.\<close>

definition decodeLocator :: "string \<Rightarrow> (string \<times> string) option" where
  "decodeLocator videoURL =
     (let parts = SplitN videoURL '','' 2
      in if length parts \<noteq> 2 then None else Some (parts ! 0, parts ! 1))"

datatype sign_error = InvalidVideoURLFormat string | PresignFailed

definition fifteenMinutes :: int where
  "fifteenMinutes = 15 * (60 * 1000000000)"

definition generatePresignedURL :: "env \<Rightarrow> string \<Rightarrow> string \<Rightarrow> int \<Rightarrow> sign_error + string" where
  "generatePresignedURL env bucket key expireTime =
     (case presign env bucket key expireTime of
        None \<Rightarrow> Inl PresignFailed
      | Some url \<Rightarrow> Inr url)"

text \<open>The function returns a record and an error, as the source does.\<close>

definition dbVideoToSignedVideo :: "env \<Rightarrow> video \<Rightarrow> video \<times> sign_error option" where
  "dbVideoToSignedVideo env video =
     (case VideoURL video of
        None \<Rightarrow> (video\<lparr>VideoURL := None\<rparr>, None)
      | Some videoURL \<Rightarrow>
          if videoURL = [] then (video\<lparr>VideoURL := None\<rparr>, None)
          else (case decodeLocator videoURL of
                  None \<Rightarrow> (video, Some (InvalidVideoURLFormat videoURL))
                | Some (bucket, key) \<Rightarrow>
                    (case generatePresignedURL env bucket key fifteenMinutes of
                       Inl err \<Rightarrow> (video, Some err)
                     | Inr url \<Rightarrow> (video\<lparr>VideoURL := Some url\<rparr>, None))))"

text \<open>
  The last part of the handler in that revision: the same steps as \<open>publishProcessed\<close>, with
  the locator \<^verbatim>\<open>bucket,key\<close> in the record and the signed record in the response.
\<close>

definition publishProcessedSigned ::
  "env \<Rightarrow> apiConfig \<Rightarrow> video \<Rightarrow> string \<Rightarrow> string \<Rightarrow> world \<Rightarrow> response \<times> world" where
  "publishProcessedSigned env cfg video aspect processedPath w =
     (case files w processedPath of
        None \<Rightarrow> (respondWithError 500 ''Failed to open processed video'', w)
      | Some processedFile \<Rightarrow>
          if openError env then (respondWithError 500 ''Failed to open processed video'', w)
          else if seekError2 env then (respondWithError 500 ''Failed to read processed video'', w)
          else (case randomSource env of
                  None \<Rightarrow> (respondWithError 500 ''Failed to generate filename'', w)
                | Some src \<Rightarrow>
                    (let objectKey = objectKeyFor aspect (randomBytes32 src);
                         (put, w1) = PutObject env (s3Bucket cfg) objectKey processedFile ''video/mp4'' w
                     in if \<not> put then (respondWithError 500 ''Failed to upload to S3'', w1)
                        else (let videoURL = encodeLocator (s3Bucket cfg) objectKey;
                                  video' = video\<lparr>VideoURL := Some videoURL\<rparr>;
                                  (updated, w2) = UpdateVideo env video' w1
                              in if \<not> updated
                                 then (respondWithError 500 ''Failed to update video'', w2)
                                 else (case dbVideoToSignedVideo env video' of
                                         (signedVideo, Some err) \<Rightarrow>
                                           (respondWithError 500 ''Failed to generate URL'', w2)
                                       | (signedVideo, None) \<Rightarrow>
                                           (respondWithJSON 200 signedVideo, w2))))))"

definition handlerUploadVideoSigned ::
  "lib \<Rightarrow> env \<Rightarrow> apiConfig \<Rightarrow> request \<Rightarrow> world \<Rightarrow> response \<times> world" where
  "handlerUploadVideoSigned = handlerUploadVideoWith publishProcessedSigned"

subsection \<open>\<^verbatim>\<open>handlerUploadThumbnail\<close>, the two revisions that write into the assets directory\<close>

definition getExtensionFromMIME :: "string \<Rightarrow> string option" where
  "getExtensionFromMIME mimeType =
     (if mimeType = ''image/jpeg'' then Some ''.jpg''
      else if mimeType = ''image/png'' then Some ''.png''
      else if mimeType = ''image/gif'' then Some ''.gif''
      else if mimeType = ''image/webp'' then Some ''.webp''
      else None)"

text \<open>
  The part that both revisions share word for word: create the destination file, copy the
  upload into it, then load the record, check its owner and update it.
\<close>

definition saveThumbnail ::
  "lib \<Rightarrow> env \<Rightarrow> apiConfig \<Rightarrow> uuid \<Rightarrow> uuid \<Rightarrow> bytes \<Rightarrow> string \<Rightarrow> world \<Rightarrow> response \<times> world" where
  "saveThumbnail lib env cfg videoID userID file filename w =
     (let filePath = filepath_Join lib (assetsRoot cfg) filename;
          (created, w1) = osCreate env filePath w
      in if \<not> created then (respondWithError 500 ''Failed to create file'', w1)
         else (let (copied, w2) = ioCopy env filePath file w1
               in if \<not> copied then (respondWithError 500 ''Failed to save file'', w2)
                  else (let (found, w3) = GetVideo env videoID w2
                        in case found of
                             Inl ErrNoRows \<Rightarrow> (respondWithError 404 ''Video not found'', w3)
                           | Inl DbFailure \<Rightarrow> (respondWithError 500 ''Database error'', w3)
                           | Inr video \<Rightarrow>
                               (case uuid_Parse lib (uuid_String lib userID) of
                                  None \<Rightarrow> (respondWithError 401 ''Invalid user ID'', w3)
                                | Some userUUID \<Rightarrow>
                                    if UserID video \<noteq> userUUID
                                    then (respondWithError 401 ''Unauthorized access'', w3)
                                    else (let thumbnailURL = ''http://localhost:'' @ port cfg
                                                               @ ''/assets/'' @ filename;
                                              video' = video\<lparr>ThumbnailURL := Some thumbnailURL\<rparr>;
                                              (updated, w4) = UpdateVideo env video' w3
                                          in if \<not> updated
                                             then (respondWithError 500 ''Failed to update video'', w4)
                                             else (respondWithJSON 200 video', w4))))))"

text \<open>The steps up to the form file, which both revisions also share.\<close>

definition thumbnailRequest ::
  "lib \<Rightarrow> apiConfig \<Rightarrow> request \<Rightarrow> response + (uuid \<times> uuid \<times> filePart)" where
  "thumbnailRequest lib cfg r =
     (case uuid_Parse lib (pathVideoID r) of
        None \<Rightarrow> Inl (respondWithError 400 ''Invalid video ID'')
      | Some videoID \<Rightarrow>
          (case GetBearerToken lib (header r) of
             None \<Rightarrow> Inl (respondWithError 401 ''Couldn't find JWT'')
           | Some token \<Rightarrow>
               (case ValidateJWT lib token (jwtSecret cfg) of
                  None \<Rightarrow> Inl (respondWithError 401 ''Invalid JWT'')
                | Some userID \<Rightarrow>
                    (case ParseMultipartForm r of
                       None \<Rightarrow> Inl (respondWithError 400 ''Error parsing form'')
                     | Some form \<Rightarrow>
                         (case FormFile form ''thumbnail'' of
                            None \<Rightarrow> Inl (respondWithError 400 ''Missing thumbnail file'')
                          | Some part \<Rightarrow> Inr (videoID, userID, part))))))"

text \<open>The revision that names the file after the video id.\<close>

definition handlerUploadThumbnail_idFile ::
  "lib \<Rightarrow> env \<Rightarrow> apiConfig \<Rightarrow> request \<Rightarrow> world \<Rightarrow> response \<times> world" where
  "handlerUploadThumbnail_idFile lib env cfg r w =
     (case thumbnailRequest lib cfg r of
        Inl resp \<Rightarrow> (resp, w)
      | Inr (videoID, userID, part) \<Rightarrow>
          (case getExtensionFromMIME (contentType part) of
             None \<Rightarrow> (respondWithError 415 ''Unsupported file type'', w)
           | Some ext \<Rightarrow>
               saveThumbnail lib env cfg videoID userID (content part)
                 (uuid_String lib videoID @ ext) w))"

text \<open>The revision that gives the file a random name and accepts JPEG and PNG only.\<close>

definition handlerUploadThumbnail_randomFile ::
  "lib \<Rightarrow> env \<Rightarrow> apiConfig \<Rightarrow> request \<Rightarrow> world \<Rightarrow> response \<times> world" where
  "handlerUploadThumbnail_randomFile lib env cfg r w =
     (case thumbnailRequest lib cfg r of
        Inl resp \<Rightarrow> (resp, w)
      | Inr (videoID, userID, part) \<Rightarrow>
          (case ParseMediaType lib (contentType part) of
             None \<Rightarrow> (respondWithError 400 ''Invalid Content-Type header'', w)
           | Some parsedMediaType \<Rightarrow>
               if parsedMediaType \<noteq> ''image/jpeg'' \<and> parsedMediaType \<noteq> ''image/png''
               then (respondWithError 415 ''Only JPEG and PNG images are allowed'', w)
               else (let ext = (if parsedMediaType = ''image/jpeg'' then ''.jpg'' else ''.png'')
                     in case randomSource env of
                          None \<Rightarrow> (respondWithError 500 ''Failed to generate filename'', w)
                        | Some src \<Rightarrow>
                            saveThumbnail lib env cfg videoID userID (content part)
                              (RawURLEncoding (randomBytes32 src) @ ext) w)))"

subsection \<open>A concrete run\<close>

text \<open>
  A small instance of every parameter, used to evaluate the handlers: two users, one video
  record owned by the first, an upload of three bytes that the probe reports as 1920x1080.
\<close>

definition example_lib :: lib where
  "example_lib =
     \<lparr>uuid_Parse = (\<lambda>s. if s = ''video-1'' then Some 1
                         else if s = ''user-10'' then Some 10
                         else if s = ''user-20'' then Some 20 else None),
      uuid_String = (\<lambda>u. if u = 1 then ''video-1''
                          else if u = 10 then ''user-10''
                          else if u = 20 then ''user-20'' else ''unknown''),
      GetBearerToken = (\<lambda>h. case map_of h ''Authorization'' of
                               None \<Rightarrow> None
                             | Some v \<Rightarrow> if take 7 v = ''Bearer '' then Some (drop 7 v) else None),
      ValidateJWT = (\<lambda>token secret. if secret \<noteq> ''secret'' then None
                                    else if token = ''alice'' then Some 10
                                    else if token = ''bob'' then Some 20 else None),
      ParseMediaType = (\<lambda>s. if s = [] then None else Some (takeWhile (\<lambda>c. c \<noteq> CHR '';'') s)),
      filepath_Join = (\<lambda>dir name. dir @ ''/'' @ name)\<rparr>"

definition example_random :: "nat \<Rightarrow> byte" where
  "example_random i = of_nat (7 * i + 3)"

definition example_env :: env where
  "example_env =
     \<lparr>dbUnavailable = False,
      tempName = Some ''/tmp/tubely-upload-1.mp4'',
      createError = False,
      copyError = None,
      seekError = False,
      ffprobe = (\<lambda>data. ProbeStreams
                   [\<lparr>CodecType = ''audio'', Width = 0, Height = 0\<rparr>,
                    \<lparr>CodecType = ''video'', Width = 1920, Height = 1080\<rparr>]),
      ffmpeg = (\<lambda>data. FfmpegOk (rev data)),
      openError = False,
      seekError2 = False,
      randomSource = Some example_random,
      putObjectError = False,
      updateVideoError = False,
      presign = (\<lambda>bucket key ttl. Some (''https://signed.example/'' @ bucket @ ''/'' @ key))\<rparr>"

definition example_cfg :: apiConfig where
  "example_cfg =
     \<lparr>jwtSecret = ''secret'', s3Bucket = ''tubely'', s3Region = ''eu-west-1'',
      assetsRoot = ''/assets'', port = ''8091''\<rparr>"

definition example_video :: video where
  "example_video = \<lparr>ID = 1, UserID = 10, VideoURL = None, ThumbnailURL = None\<rparr>"

definition example_world :: world where
  "example_world =
     \<lparr>files = Map.empty, objects = Map.empty, videos = [1 \<mapsto> example_video], log = []\<rparr>"

definition example_request :: "string \<Rightarrow> string \<Rightarrow> string \<Rightarrow> request" where
  "example_request token field ctype =
     \<lparr>pathVideoID = ''video-1'',
      header = [(''Authorization'', ''Bearer '' @ token)],
      bodyLength = 300,
      bodyLimit = None,
      multipartForm = Some [(field, \<lparr>contentType = ctype, content = [1, 2, 3]\<rparr>)]\<rparr>"

text \<open>The owner's upload with a body one byte longer than the ceiling of the video handler.\<close>

definition example_oversized :: request where
  "example_oversized = (example_request ''alice'' ''video'' ''video/mp4'')\<lparr>bodyLength := 2 ^ 30 + 1\<rparr>"

text \<open>
  A run in which the remux tool exits with an error after it has created its output file,
  here with the first byte of the input in it.
\<close>

definition example_remux_fails :: env where
  "example_remux_fails = example_env\<lparr>ffmpeg := (\<lambda>data. FfmpegFailed (Some (take 1 data)))\<rparr>"

section \<open>Properties\<close>

subsection \<open>Aspect classifier\<close>

lemma aspect_1920_1080: "aspectOfRatio 1920 1080 = ''landscape''"
  by code_simp

lemma aspect_1080_1920: "aspectOfRatio 1080 1920 = ''portrait''"
  by code_simp

lemma aspect_1000_1000: "aspectOfRatio 1000 1000 = ''other''"
  by code_simp

lemma in_band_1280_720: "spec_in_band (spec_ratio 1280 720) (rnd64 (16 / 9))"
  by code_simp

text \<open>
  The comparison is one of rounded values. The ratio 28:15 lies exactly five percent above
  16/9, so exact arithmetic puts it on the edge of the landscape band; the rounded difference
  is larger than the rounded bound, and the classifier answers \<open>other\<close>.
\<close>

lemma aspect_28_15:
  "aspectOfRatio 28 15 = ''other'' \<and> \<bar>(28::rat) / 15 - 16 / 9\<bar> \<le> 16 / 9 * (5 / 100)"
  by code_simp

text \<open>
  \<^bold>\<open>C3.\<close> For every geometry with positive width and height the classifier returns
  \<open>landscape\<close> exactly when the ratio lies in the band of 16/9, \<open>portrait\<close> exactly
  when it lies outside that band and inside the band of 9/16, and \<open>other\<close> in all
  remaining cases; the landscape band is tested first. The band test is the one of the
  specification, \<open>|ratio - target| \<le> target * 0.05\<close>, on \<^verbatim>\<open>float64\<close> values. A
  probe whose first video stream has that geometry yields this class. In particular
  1920x1080 is landscape, 1080x1920 is portrait and 1000x1000 is other.
\<close>

theorem aspect_classification:
  assumes "0 < width" and "0 < height"
  shows "(aspectOfRatio width height = ''landscape'' \<longleftrightarrow>
            spec_in_band (spec_ratio width height) (rnd64 (16 / 9)))
       \<and> (aspectOfRatio width height = ''portrait'' \<longleftrightarrow>
            \<not> spec_in_band (spec_ratio width height) (rnd64 (16 / 9))
            \<and> spec_in_band (spec_ratio width height) (rnd64 (9 / 16)))
       \<and> (aspectOfRatio width height = ''other'' \<longleftrightarrow>
            \<not> spec_in_band (spec_ratio width height) (rnd64 (16 / 9))
            \<and> \<not> spec_in_band (spec_ratio width height) (rnd64 (9 / 16)))
       \<and> aspectFromProbe (ProbeStreams [\<lparr>CodecType = ''video'', Width = width, Height = height\<rparr>])
           = Inr (aspectOfRatio width height)
       \<and> aspectOfRatio 1920 1080 = ''landscape''
       \<and> aspectOfRatio 1080 1920 = ''portrait''
       \<and> aspectOfRatio 1000 1000 = ''other''"
  using assms
  by (simp add: aspect_1920_1080 aspect_1080_1920 aspect_1000_1000 aspectFromProbe_def)
     (simp add: aspectOfRatio_def spec_in_band_def spec_ratio_def tolerance_def
        landscapeTarget_def portraitTarget_def Let_def)

theorem aspect_classification_witness:
  "(0::int) < 1280 \<and> (0::int) < 720 \<and> aspectOfRatio 1280 720 = ''landscape''"
  using aspect_classification[of 1280 720] in_band_1280_720 by simp

subsection \<open>Media prober\<close>

lemma firstVideoStream_find:
  "firstVideoStream streams =
     (case find (\<lambda>s. CodecType s = ''video'') streams of
        None \<Rightarrow> (0, 0)
      | Some s \<Rightarrow> (Width s, Height s))"
  by (induction streams) simp_all

text \<open>
  \<^bold>\<open>C4\<close>, as amended. The prober takes the width and height of the first stream of type
  \<open>video\<close> and ignores every other stream; it fails with the no-video-stream error exactly
  when the list has no stream of type \<open>video\<close> or the first such stream has width zero or
  height zero. Otherwise it returns the class of that stream's geometry.
\<close>

theorem prober_first_video_stream:
  "aspectFromProbe (ProbeStreams streams) =
     (case find (\<lambda>s. CodecType s = ''video'') streams of
        None \<Rightarrow> Inl NoVideoStreamFound
      | Some s \<Rightarrow> if Width s = 0 \<or> Height s = 0 then Inl NoVideoStreamFound
                  else Inr (aspectOfRatio (Width s) (Height s)))"
  by (simp add: aspectFromProbe_def firstVideoStream_find split: option.split)

theorem prober_first_video_stream_witness:
  "aspectFromProbe (ProbeStreams
     [\<lparr>CodecType = ''audio'', Width = 0, Height = 0\<rparr>,
      \<lparr>CodecType = ''video'', Width = 1920, Height = 1080\<rparr>,
      \<lparr>CodecType = ''video'', Width = 0, Height = 0\<rparr>]) = Inr ''landscape''"
  using prober_first_video_stream[of
     "[\<lparr>CodecType = ''audio'', Width = 0, Height = 0\<rparr>,
       \<lparr>CodecType = ''video'', Width = 1920, Height = 1080\<rparr>,
       \<lparr>CodecType = ''video'', Width = 0, Height = 0\<rparr>]"]
  by (simp add: aspect_1920_1080)

text \<open>
  The claim as first stated fails on a list whose first video stream is empty and whose
  second is 1920x1080: a stream with positive width and height exists, and the prober
  reports that there is no video stream.
\<close>

theorem prober_no_video_stream_counterexample:
  "(aspectFromProbe (ProbeStreams
       [\<lparr>CodecType = ''video'', Width = 0, Height = 0\<rparr>,
        \<lparr>CodecType = ''video'', Width = 1920, Height = 1080\<rparr>]) = Inl NoVideoStreamFound)
   \<noteq> spec_noVideoStream
       [\<lparr>CodecType = ''video'', Width = 0, Height = 0\<rparr>,
        \<lparr>CodecType = ''video'', Width = 1920, Height = 1080\<rparr>]"
  by (simp add: aspectFromProbe_def spec_noVideoStream_def)

subsection \<open>Locator encoding and signing on read\<close>

lemma cutAt_comma:
  "cutAt '','' s =
     (if CHR '','' \<in> set s
      then Some (takeWhile (\<lambda>c. c \<noteq> CHR '','') s, tl (dropWhile (\<lambda>c. c \<noteq> CHR '','') s))
      else None)"
  by (induction s) auto

lemma decodeLocator_comma:
  "decodeLocator s =
     (if CHR '','' \<in> set s
      then Some (takeWhile (\<lambda>c. c \<noteq> CHR '','') s, tl (dropWhile (\<lambda>c. c \<noteq> CHR '','') s))
      else None)"
  by (simp add: decodeLocator_def SplitN_def cutAt_comma numeral_2_eq_2)

lemma takeWhile_until: "c \<notin> set xs \<Longrightarrow> takeWhile (\<lambda>x. x \<noteq> c) (xs @ c # ys) = xs"
  by (induction xs) auto

lemma dropWhile_until: "c \<notin> set xs \<Longrightarrow> dropWhile (\<lambda>x. x \<noteq> c) (xs @ c # ys) = c # ys"
  by (induction xs) auto

lemma takeWhile_stops: "c \<in> set xs \<Longrightarrow> takeWhile (\<lambda>x. x \<noteq> c) (xs @ ys) \<noteq> xs"
  by (induction xs) auto

text \<open>
  \<^bold>\<open>C6\<close>, as amended. Writing the locator as \<^verbatim>\<open>bucket,key\<close> and splitting it in
  two at the first comma on the read path gives back the same bucket and key exactly when
  the bucket name contains no comma; the key may contain any character.
\<close>

theorem locator_round_trip:
  "decodeLocator (encodeLocator bucket key) = Some (bucket, key) \<longleftrightarrow> CHR '','' \<notin> set bucket"
proof (cases "CHR '','' \<in> set bucket")
  case False
  then show ?thesis
    by (simp add: decodeLocator_comma encodeLocator_def takeWhile_until dropWhile_until)
next
  case True
  then show ?thesis
    using takeWhile_stops[of "CHR '',''" bucket "'','' @ key"]
    by (simp add: decodeLocator_comma encodeLocator_def)
qed

theorem locator_round_trip_witness:
  "decodeLocator (encodeLocator ''tubely'' ''landscape/a,b.mp4'') = Some (''tubely'', ''landscape/a,b.mp4'')"
  using locator_round_trip[of "''tubely''" "''landscape/a,b.mp4''"] by simp

text \<open>A bucket name with a comma comes back cut at that comma.\<close>

theorem locator_round_trip_counterexample:
  "decodeLocator (encodeLocator ''my,bucket'' ''landscape/abc.mp4'')
     = Some (''my'', ''bucket,landscape/abc.mp4'')
   \<and> decodeLocator (encodeLocator ''my,bucket'' ''landscape/abc.mp4'')
     \<noteq> Some (''my,bucket'', ''landscape/abc.mp4'')"
  by (simp add: decodeLocator_comma encodeLocator_def)

text \<open>
  \<^bold>\<open>C7.\<close> For a record whose locator is absent or empty, signing returns the record with
  every other field as it was and with no locator, and returns no error; a record whose
  locator was absent comes back unchanged. The presigner is not consulted.
\<close>

theorem signing_absent_locator:
  assumes "VideoURL video = None \<or> VideoURL video = Some []"
  shows "dbVideoToSignedVideo env video = (video\<lparr>VideoURL := None\<rparr>, None)
         \<and> VideoURL (fst (dbVideoToSignedVideo env video)) = None
         \<and> (VideoURL video = None \<longrightarrow> fst (dbVideoToSignedVideo env video) = video)"
  using assms by (auto simp: dbVideoToSignedVideo_def)

theorem signing_absent_locator_witness:
  "dbVideoToSignedVideo example_env example_video = (example_video, None)
   \<and> dbVideoToSignedVideo example_env (example_video\<lparr>VideoURL := Some []\<rparr>) = (example_video, None)"
  using signing_absent_locator[of example_video example_env]
    signing_absent_locator[of "example_video\<lparr>VideoURL := Some []\<rparr>" example_env]
  by (simp add: example_video_def)

subsection \<open>Checks that precede the pipeline\<close>

lemmas example_defs =
  example_lib_def example_env_def example_cfg_def example_video_def example_world_def
  example_request_def

text \<open>
  \<^bold>\<open>C1.\<close> When the id and the token are valid, the record exists and the principal that
  the handler compares (the token's user id, parsed again from its text) is not the record's
  owner, the handler answers 401 and the world is the one it started from, except that the
  log records the read of the record: no temporary file, no probe or remux run, no put, no
  update. The same holds for the revision that signs the locator.
\<close>

theorem non_owner_fails_closed:
  assumes "uuid_Parse lib (pathVideoID r) = Some videoID"
    and "GetBearerToken lib (header r) = Some token"
    and "ValidateJWT lib token (jwtSecret cfg) = Some userID"
    and "\<not> dbUnavailable env"
    and "videos w videoID = Some video"
    and "uuid_Parse lib (uuid_String lib userID) \<noteq> Some (UserID video)"
  shows "status (fst (handlerUploadVideo lib env cfg r w)) = 401
       \<and> snd (handlerUploadVideo lib env cfg r w) = w\<lparr>log := log w @ [DbGetVideo videoID]\<rparr>
       \<and> status (fst (handlerUploadVideoSigned lib env cfg r w)) = 401
       \<and> snd (handlerUploadVideoSigned lib env cfg r w) = w\<lparr>log := log w @ [DbGetVideo videoID]\<rparr>"
  using assms
  by (auto simp: handlerUploadVideo_def handlerUploadVideoSigned_def handlerUploadVideoWith_def
      GetVideo_def logged_def respondWithError_def Let_def split: option.splits)

theorem non_owner_fails_closed_witness:
  "status (fst (handlerUploadVideo example_lib example_env example_cfg
                  (example_request ''bob'' ''video'' ''video/mp4'') example_world)) = 401
   \<and> snd (handlerUploadVideo example_lib example_env example_cfg
            (example_request ''bob'' ''video'' ''video/mp4'') example_world)
       = example_world\<lparr>log := [DbGetVideo 1]\<rparr>"
  using non_owner_fails_closed[of example_lib "example_request ''bob'' ''video'' ''video/mp4''" 1
      "''bob''" example_cfg 20 example_env example_world example_video]
  by (simp add: example_defs)

text \<open>
  \<^bold>\<open>C8\<close>, as amended. For every request whose body is longer than the ceiling of
  \<open>2 ^ 30\<close> bytes, the handler creates no file, runs no tool and changes neither store; at
  most the read of the record is logged. The answer is 400, 401, 404 or 500, and 500 only
  when the lookup of the record fails with a database error. When the id, the token, the
  lookup and the ownership check succeed, the answer is 400 with the message of the failed
  form parse.
\<close>

theorem oversized_upload_rejected:
  assumes "2 ^ 30 < bodyLength r"
  shows "files (snd (handlerUploadVideo lib env cfg r w)) = files w
       \<and> objects (snd (handlerUploadVideo lib env cfg r w)) = objects w
       \<and> videos (snd (handlerUploadVideo lib env cfg r w)) = videos w
       \<and> (log (snd (handlerUploadVideo lib env cfg r w)) = log w
          \<or> (\<exists>videoID. log (snd (handlerUploadVideo lib env cfg r w)) = log w @ [DbGetVideo videoID]))
       \<and> status (fst (handlerUploadVideo lib env cfg r w)) \<in> {400, 401, 404, 500}
       \<and> (status (fst (handlerUploadVideo lib env cfg r w)) = 500 \<longrightarrow> dbUnavailable env)
       \<and> (\<forall>videoID token userID video.
             uuid_Parse lib (pathVideoID r) = Some videoID
             \<and> GetBearerToken lib (header r) = Some token
             \<and> ValidateJWT lib token (jwtSecret cfg) = Some userID
             \<and> \<not> dbUnavailable env
             \<and> videos w videoID = Some video
             \<and> uuid_Parse lib (uuid_String lib userID) = Some (UserID video)
           \<longrightarrow> fst (handlerUploadVideo lib env cfg r w) = respondWithError 400 ''Error parsing form'')"
  using assms
  by (auto simp: handlerUploadVideo_def handlerUploadVideoWith_def stageUpload_def
      ParseMultipartForm_def GetVideo_def logged_def respondWithError_def Let_def
      split: option.splits sum.splits db_error.splits)

theorem oversized_upload_rejected_witness:
  "2 ^ 30 < bodyLength example_oversized
   \<and> fst (handlerUploadVideo example_lib example_env example_cfg example_oversized example_world)
       = respondWithError 400 ''Error parsing form''"
  using oversized_upload_rejected[of example_oversized example_lib example_env example_cfg example_world]
  by (simp add: example_defs example_oversized_def)

text \<open>
  The claim as first stated promises a 4xx answer for every oversized request. When the
  lookup of the record fails with a database error, which happens before the body is read,
  the answer is 500.
\<close>

theorem oversized_upload_counterexample:
  "2 ^ 30 < bodyLength example_oversized
   \<and> status (fst (handlerUploadVideo example_lib (example_env\<lparr>dbUnavailable := True\<rparr>) example_cfg
                    example_oversized example_world)) = 500"
  by (simp add: example_defs example_oversized_def handlerUploadVideo_def handlerUploadVideoWith_def
      GetVideo_def logged_def respondWithError_def)

subsection \<open>Object keys\<close>

lemma length_RawURLEncoding: "length (RawURLEncoding bs) = (length bs * 8 + 5) div 6"
  by (induction bs rule: RawURLEncoding.induct) (simp_all add: Let_def)

lemma length_urlAlphabet: "length urlAlphabet = 64"
  by (simp add: urlAlphabet_def)

lemma sextet_in_alphabet: "sextet val k \<in> set urlAlphabet"
proof -
  have "nat ((val div 2 ^ k) mod 64) < length urlAlphabet"
    by (simp add: length_urlAlphabet nat_less_iff)
  then show ?thesis
    unfolding sextet_def by (rule nth_mem)
qed

lemma set_RawURLEncoding: "set (RawURLEncoding bs) \<subseteq> set urlAlphabet"
  by (induction bs rule: RawURLEncoding.induct) (simp_all add: Let_def sextet_in_alphabet)

lemma length_randomBytes32: "length (randomBytes32 src) = 32"
  by (simp add: randomBytes32_def)

lemma length_encoded_random: "length (RawURLEncoding (randomBytes32 src)) = 43"
  by (simp add: length_RawURLEncoding length_randomBytes32)

lemma aspectOfRatio_range: "aspectOfRatio width height \<in> {''landscape'', ''portrait'', ''other''}"
  by (simp add: aspectOfRatio_def Let_def)

lemma aspectFromProbe_range:
  "aspectFromProbe probed = Inr aspect \<Longrightarrow> aspect \<in> {''landscape'', ''portrait'', ''other''}"
  using aspectOfRatio_range
  by (auto simp: aspectFromProbe_def split: ffprobe_result.splits prod.splits if_splits)

subsection \<open>Whole runs of the video handler\<close>

lemmas world_ops =
  logged_def GetVideo_def UpdateVideo_def PutObject_def osCreateTemp_def osCreate_def ioCopy_def
  osRemove_def getVideoAspectRatio_def processVideoForFastStart_def
  respondWithError_def respondWithJSON_def

lemmas video_handler_defs =
  handlerUploadVideo_def handlerUploadVideoWith_def stageUpload_def processStaged_def
  publishProcessed_def ParseMultipartForm_def FormFile_def

text \<open>
  The next lemmas follow a whole run of the handler: every branch of every stage is
  unfolded, and the property is read off the world that the branch returns.
\<close>

lemma put_then_update_fails_run:
  assumes "\<not> putObjectError env" and "updateVideoError env"
  shows "case handlerUploadVideo lib env cfg r w of (resp, w') \<Rightarrow>
       S3PutObject bucket key \<in> set (drop (length (log w)) (log w')) \<longrightarrow>
         resp = respondWithError 500 ''Failed to update video''
       \<and> videos w' = videos w
       \<and> (\<exists>data. objects w' = (objects w)((bucket, key) \<mapsto> (data, ''video/mp4'')))
       \<and> (\<exists>videoID video tmp.
             uuid_Parse lib (pathVideoID r) = Some videoID
           \<and> videos w videoID = Some video
           \<and> tempName env = Some tmp
           \<and> log w' = log w @ [DbGetVideo videoID, CreateTemp tmp, WriteFile tmp, RunFfprobe tmp,
                                RunFfmpeg tmp (tmp @ ''.processing''),
                                S3PutObject bucket key, DbUpdateVideo (ID video),
                                RemoveFile (tmp @ ''.processing''), RemoveFile tmp])"
  using assms
  by (auto simp: video_handler_defs world_ops Let_def
      split: option.split sum.split prod.split ffmpeg_result.split db_error.split)

text \<open>
  \<^bold>\<open>C9.\<close> In every run that puts an object (the put is among the actions the run adds to
  the log), with a put that succeeds and a record update that fails, the answer is 500 with
  the message of the failed update; the object store is the initial one plus the new object
  under the derived key; after the put the run only attempts the update and removes its two
  local files, so nothing deletes the object; and the metadata store is unchanged.
\<close>

theorem put_then_update_failure:
  assumes "\<not> putObjectError env" and "updateVideoError env"
    and "S3PutObject bucket key
           \<in> set (drop (length (log w)) (log (snd (handlerUploadVideo lib env cfg r w))))"
  shows "fst (handlerUploadVideo lib env cfg r w) = respondWithError 500 ''Failed to update video''
       \<and> status (fst (handlerUploadVideo lib env cfg r w)) = 500
       \<and> videos (snd (handlerUploadVideo lib env cfg r w)) = videos w
       \<and> (\<exists>data. objects (snd (handlerUploadVideo lib env cfg r w))
                    = (objects w)((bucket, key) \<mapsto> (data, ''video/mp4'')))
       \<and> (\<exists>videoID video tmp.
             uuid_Parse lib (pathVideoID r) = Some videoID
           \<and> videos w videoID = Some video
           \<and> tempName env = Some tmp
           \<and> log (snd (handlerUploadVideo lib env cfg r w))
               = log w @ [DbGetVideo videoID, CreateTemp tmp, WriteFile tmp, RunFfprobe tmp,
                          RunFfmpeg tmp (tmp @ ''.processing''),
                          S3PutObject bucket key, DbUpdateVideo (ID video),
                          RemoveFile (tmp @ ''.processing''), RemoveFile tmp])"
  using put_then_update_fails_run[OF assms(1,2), where lib = lib and cfg = cfg and r = r
      and w = w and bucket = bucket and key = key] assms(3)
  by (simp add: case_prod_beta respondWithError_def)

lemma example_random_encoded:
  "RawURLEncoding (randomBytes32 example_random) = ''AwoRGB8mLTQ7QklQV15lbHN6gYiPlp2kq7K5wMfO1dw''"
  by code_simp

lemma example_run_update_fails:
  "handlerUploadVideo example_lib (example_env\<lparr>updateVideoError := True\<rparr>) example_cfg
     (example_request ''alice'' ''video'' ''video/mp4'') example_world
   = (respondWithError 500 ''Failed to update video'',
      \<lparr>files = Map.empty,
       objects = [(''tubely'', ''landscape/AwoRGB8mLTQ7QklQV15lbHN6gYiPlp2kq7K5wMfO1dw.mp4'')
                    \<mapsto> ([3, 2, 1], ''video/mp4'')],
       videos = [1 \<mapsto> example_video],
       log = [DbGetVideo 1, CreateTemp ''/tmp/tubely-upload-1.mp4'',
              WriteFile ''/tmp/tubely-upload-1.mp4'', RunFfprobe ''/tmp/tubely-upload-1.mp4'',
              RunFfmpeg ''/tmp/tubely-upload-1.mp4'' ''/tmp/tubely-upload-1.mp4.processing'',
              S3PutObject ''tubely'' ''landscape/AwoRGB8mLTQ7QklQV15lbHN6gYiPlp2kq7K5wMfO1dw.mp4'',
              DbUpdateVideo 1, RemoveFile ''/tmp/tubely-upload-1.mp4.processing'',
              RemoveFile ''/tmp/tubely-upload-1.mp4'']\<rparr>)"
  apply (simp add: example_defs video_handler_defs world_ops Let_def aspectFromProbe_def
      aspect_1920_1080 objectKeyFor_def example_random_encoded)
  done

theorem put_then_update_failure_witness:
  "fst (handlerUploadVideo example_lib (example_env\<lparr>updateVideoError := True\<rparr>) example_cfg
          (example_request ''alice'' ''video'' ''video/mp4'') example_world)
     = respondWithError 500 ''Failed to update video''
   \<and> videos (snd (handlerUploadVideo example_lib (example_env\<lparr>updateVideoError := True\<rparr>)
          example_cfg (example_request ''alice'' ''video'' ''video/mp4'') example_world))
     = videos example_world"
  using put_then_update_failure[of "example_env\<lparr>updateVideoError := True\<rparr>" "''tubely''"
      "''landscape/AwoRGB8mLTQ7QklQV15lbHN6gYiPlp2kq7K5wMfO1dw.mp4''" example_world example_lib
      example_cfg "example_request ''alice'' ''video'' ''video/mp4''"]
  by (simp add: example_run_update_fails) (simp add: example_env_def example_world_def)

lemma successful_upload_run:
  "case handlerUploadVideo lib env cfg r w of (resp, w') \<Rightarrow>
     status resp = 200 \<longrightarrow>
       (\<exists>src aspect data.
          randomSource env = Some src
        \<and> aspectFromProbe (ffprobe env data) = Inr aspect
        \<and> S3PutObject (s3Bucket cfg) (objectKeyFor aspect (randomBytes32 src)) \<in> set (log w')
        \<and> objects w' (s3Bucket cfg, objectKeyFor aspect (randomBytes32 src)) \<noteq> None)"
  by (auto simp: video_handler_defs world_ops Let_def
      split: option.split sum.split prod.split ffmpeg_result.split db_error.split)

text \<open>
  \<^bold>\<open>C5.\<close> In every run that answers 200, the object was put under the key
  \<open>aspect/encoded.mp4\<close>, where the aspect is one of the three classes and the encoded part
  is the padding-free URL-safe base64 text of the 32 bytes drawn from the random source: 43
  characters of the URL-safe alphabet. The randomness itself is a parameter of the model.
\<close>

theorem object_key_format:
  assumes "status (fst (handlerUploadVideo lib env cfg r w)) = 200"
  shows "\<exists>src aspect.
           randomSource env = Some src
         \<and> aspect \<in> {''landscape'', ''portrait'', ''other''}
         \<and> length (randomBytes32 src) = 32
         \<and> length (RawURLEncoding (randomBytes32 src)) = 43
         \<and> set (RawURLEncoding (randomBytes32 src)) \<subseteq> set urlAlphabet
         \<and> S3PutObject (s3Bucket cfg) (aspect @ ''/'' @ RawURLEncoding (randomBytes32 src) @ ''.mp4'')
             \<in> set (log (snd (handlerUploadVideo lib env cfg r w)))
         \<and> objects (snd (handlerUploadVideo lib env cfg r w))
              (s3Bucket cfg, aspect @ ''/'' @ RawURLEncoding (randomBytes32 src) @ ''.mp4'') \<noteq> None"
proof -
  from successful_upload_run[where lib = lib and env = env and cfg = cfg and r = r and w = w] assms
  obtain src aspect data where run:
    "randomSource env = Some src"
    "aspectFromProbe (ffprobe env data) = Inr aspect"
    "S3PutObject (s3Bucket cfg) (objectKeyFor aspect (randomBytes32 src))
       \<in> set (log (snd (handlerUploadVideo lib env cfg r w)))"
    "objects (snd (handlerUploadVideo lib env cfg r w))
       (s3Bucket cfg, objectKeyFor aspect (randomBytes32 src)) \<noteq> None"
    by (auto simp: case_prod_beta)
  from run(2) have "aspect \<in> {''landscape'', ''portrait'', ''other''}"
    by (rule aspectFromProbe_range)
  with run(1,3,4) show ?thesis
    using length_randomBytes32[of src] length_encoded_random[of src]
      set_RawURLEncoding[of "randomBytes32 src"]
    unfolding objectKeyFor_def by blast
qed

lemma example_run_ok:
  "handlerUploadVideo example_lib example_env example_cfg
     (example_request ''alice'' ''video'' ''video/mp4'') example_world
   = (respondWithJSON 200 (example_video\<lparr>VideoURL := Some
        ''https://tubely.s3.eu-west-1.amazonaws.com/landscape/AwoRGB8mLTQ7QklQV15lbHN6gYiPlp2kq7K5wMfO1dw.mp4''\<rparr>),
      \<lparr>files = Map.empty,
       objects = [(''tubely'', ''landscape/AwoRGB8mLTQ7QklQV15lbHN6gYiPlp2kq7K5wMfO1dw.mp4'')
                    \<mapsto> ([3, 2, 1], ''video/mp4'')],
       videos = [1 \<mapsto> example_video\<lparr>VideoURL := Some
        ''https://tubely.s3.eu-west-1.amazonaws.com/landscape/AwoRGB8mLTQ7QklQV15lbHN6gYiPlp2kq7K5wMfO1dw.mp4''\<rparr>],
       log = [DbGetVideo 1, CreateTemp ''/tmp/tubely-upload-1.mp4'',
              WriteFile ''/tmp/tubely-upload-1.mp4'', RunFfprobe ''/tmp/tubely-upload-1.mp4'',
              RunFfmpeg ''/tmp/tubely-upload-1.mp4'' ''/tmp/tubely-upload-1.mp4.processing'',
              S3PutObject ''tubely'' ''landscape/AwoRGB8mLTQ7QklQV15lbHN6gYiPlp2kq7K5wMfO1dw.mp4'',
              DbUpdateVideo 1, RemoveFile ''/tmp/tubely-upload-1.mp4.processing'',
              RemoveFile ''/tmp/tubely-upload-1.mp4'']\<rparr>)"
  by (simp add: example_defs video_handler_defs world_ops Let_def aspectFromProbe_def
      aspect_1920_1080 objectKeyFor_def example_random_encoded)

theorem object_key_format_witness:
  "status (fst (handlerUploadVideo example_lib example_env example_cfg
                  (example_request ''alice'' ''video'' ''video/mp4'') example_world)) = 200
   \<and> (\<exists>src aspect.
         randomSource example_env = Some src
       \<and> aspect \<in> {''landscape'', ''portrait'', ''other''}
       \<and> length (RawURLEncoding (randomBytes32 src)) = 43
       \<and> S3PutObject (s3Bucket example_cfg)
            (aspect @ ''/'' @ RawURLEncoding (randomBytes32 src) @ ''.mp4'')
           \<in> set (log (snd (handlerUploadVideo example_lib example_env example_cfg
                    (example_request ''alice'' ''video'' ''video/mp4'') example_world))))"
proof -
  have ok: "status (fst (handlerUploadVideo example_lib example_env example_cfg
                  (example_request ''alice'' ''video'' ''video/mp4'') example_world)) = 200"
    by (simp add: example_run_ok respondWithJSON_def)
  from object_key_format[OF ok] ok show ?thesis by blast
qed

text \<open>
  Cleanup. In every run, a file that exists afterwards and did not exist before is the
  output of a remux that failed: the removal of the temporary file is deferred right after
  its creation, the removal of the processed file only after the remux has returned without
  error.
\<close>

lemma temp_files_released_unless_remux_fails:
  "case handlerUploadVideo lib env cfg r w of (resp, w') \<Rightarrow>
     \<forall>p. files w p = None \<longrightarrow> files w' p \<noteq> None \<longrightarrow>
       (\<exists>tmp data part.
          tempName env = Some tmp \<and> p = tmp @ ''.processing''
        \<and> ffmpeg env data = FfmpegFailed (Some part)
        \<and> resp = respondWithError 500 ''Video processing failed'')"
  by (auto simp: video_handler_defs world_ops Let_def
      split: option.split sum.split prod.split ffmpeg_result.split db_error.split)

text \<open>
  \<^bold>\<open>C2\<close> asks that no temporary file of the request remains after any outcome. In the run
  below the remux tool fails after creating its output: the handler answers 500, removes the
  staged upload, and leaves \<^verbatim>\<open>/tmp/tubely-upload-1.mp4.processing\<close> behind.
\<close>

theorem failed_remux_leaves_output:
  "files example_world ''/tmp/tubely-upload-1.mp4.processing'' = None
   \<and> handlerUploadVideo example_lib example_remux_fails example_cfg
       (example_request ''alice'' ''video'' ''video/mp4'') example_world
     = (respondWithError 500 ''Video processing failed'',
        \<lparr>files = [''/tmp/tubely-upload-1.mp4.processing'' \<mapsto> [1]],
         objects = Map.empty,
         videos = [1 \<mapsto> example_video],
         log = [DbGetVideo 1, CreateTemp ''/tmp/tubely-upload-1.mp4'',
                WriteFile ''/tmp/tubely-upload-1.mp4'', RunFfprobe ''/tmp/tubely-upload-1.mp4'',
                RunFfmpeg ''/tmp/tubely-upload-1.mp4'' ''/tmp/tubely-upload-1.mp4.processing'',
                RemoveFile ''/tmp/tubely-upload-1.mp4'']\<rparr>)"
  by (simp add: example_remux_fails_def example_defs video_handler_defs world_ops Let_def
      aspectFromProbe_def aspect_1920_1080)


subsection \<open>Thumbnail handlers\<close>

lemmas thumbnail_handler_defs =
  handlerUploadThumbnail_idFile_def handlerUploadThumbnail_randomFile_def thumbnailRequest_def
  saveThumbnail_def

text \<open>
  \<^bold>\<open>C10.\<close> In both thumbnail revisions, for a request with a valid id and token, a form
  with a thumbnail file of an accepted type, and a file system that creates and writes the
  destination, the file is in the assets directory with the full upload in it, and its
  creation and write come before the read of the record in the log. When the caller is not
  the owner of the record, the answer is 401 and the final world is the initial one plus
  that file: the record is not updated and the file stays.
\<close>

theorem thumbnail_written_before_ownership_check:
  assumes "uuid_Parse lib (pathVideoID r) = Some videoID"
    and "GetBearerToken lib (header r) = Some token"
    and "ValidateJWT lib token (jwtSecret cfg) = Some userID"
    and "ParseMultipartForm r = Some form"
    and "FormFile form ''thumbnail'' = Some part"
    and "\<not> createError env"
    and "copyError env = None"
  shows "(getExtensionFromMIME (contentType part) = Some ext \<longrightarrow>
           (let path = filepath_Join lib (assetsRoot cfg) (uuid_String lib videoID @ ext);
                run = handlerUploadThumbnail_idFile lib env cfg r w
            in files (snd run) path = Some (content part)
             \<and> (\<exists>rest. log (snd run)
                         = log w @ CreateFile path # WriteFile path # DbGetVideo videoID # rest)
             \<and> (\<forall>video. \<not> dbUnavailable env \<and> videos w videoID = Some video
                         \<and> uuid_Parse lib (uuid_String lib userID) \<noteq> Some (UserID video)
                  \<longrightarrow> status (fst run) = 401
                    \<and> snd run = w\<lparr>files := (files w)(path \<mapsto> content part),
                                   log := log w @ [CreateFile path, WriteFile path,
                                                   DbGetVideo videoID]\<rparr>)))
       \<and> (ParseMediaType lib (contentType part) = Some mediaType
            \<and> (mediaType = ''image/jpeg'' \<or> mediaType = ''image/png'')
            \<and> randomSource env = Some src \<longrightarrow>
           (let path = filepath_Join lib (assetsRoot cfg)
                         (RawURLEncoding (randomBytes32 src)
                            @ (if mediaType = ''image/jpeg'' then ''.jpg'' else ''.png''));
                run = handlerUploadThumbnail_randomFile lib env cfg r w
            in files (snd run) path = Some (content part)
             \<and> (\<exists>rest. log (snd run)
                         = log w @ CreateFile path # WriteFile path # DbGetVideo videoID # rest)
             \<and> (\<forall>video. \<not> dbUnavailable env \<and> videos w videoID = Some video
                         \<and> uuid_Parse lib (uuid_String lib userID) \<noteq> Some (UserID video)
                  \<longrightarrow> status (fst run) = 401
                    \<and> snd run = w\<lparr>files := (files w)(path \<mapsto> content part),
                                   log := log w @ [CreateFile path, WriteFile path,
                                                   DbGetVideo videoID]\<rparr>)))"
  using assms
  by (auto simp: thumbnail_handler_defs world_ops Let_def
      split: option.split sum.split prod.split db_error.split)

theorem thumbnail_written_before_ownership_check_witness:
  "status (fst (handlerUploadThumbnail_idFile example_lib example_env example_cfg
                  (example_request ''bob'' ''thumbnail'' ''image/png'') example_world)) = 401
   \<and> snd (handlerUploadThumbnail_idFile example_lib example_env example_cfg
            (example_request ''bob'' ''thumbnail'' ''image/png'') example_world)
       = example_world\<lparr>files := [''/assets/video-1.png'' \<mapsto> [1, 2, 3]],
                       log := [CreateFile ''/assets/video-1.png'', WriteFile ''/assets/video-1.png'',
                               DbGetVideo 1]\<rparr>
   \<and> status (fst (handlerUploadThumbnail_randomFile example_lib example_env example_cfg
                  (example_request ''bob'' ''thumbnail'' ''image/png'') example_world)) = 401
   \<and> files (snd (handlerUploadThumbnail_randomFile example_lib example_env example_cfg
                  (example_request ''bob'' ''thumbnail'' ''image/png'') example_world))
       ''/assets/AwoRGB8mLTQ7QklQV15lbHN6gYiPlp2kq7K5wMfO1dw.png'' = Some [1, 2, 3]
   \<and> videos (snd (handlerUploadThumbnail_randomFile example_lib example_env example_cfg
                  (example_request ''bob'' ''thumbnail'' ''image/png'') example_world))
       = videos example_world"
  using thumbnail_written_before_ownership_check[of example_lib
      "example_request ''bob'' ''thumbnail'' ''image/png''" 1 "''bob''" example_cfg 20
      "[(''thumbnail'', \<lparr>contentType = ''image/png'', content = [1, 2, 3]\<rparr>)]"
      "\<lparr>contentType = ''image/png'', content = [1, 2, 3]\<rparr>" example_env "''.png''"
      example_world "''image/png''" example_random]
  by (simp add: example_defs ParseMultipartForm_def FormFile_def getExtensionFromMIME_def
      example_random_encoded Let_def)

end
